theory Spec2Isabelle
  imports Complex_Main
begin

section \<open>JavaScript string primitives\<close>

text \<open>
  Strings are lists of characters. Characters outside ASCII are kept as the bytes of
  their UTF-8 encoding; \<open>toLowerCase\<close> maps the letters A to Z to a to z and leaves
  every other character as it is.
\<close>

definition toLowerChar :: "char \<Rightarrow> char" where
  "toLowerChar c =
     (case map_of (zip ''ABCDEFGHIJKLMNOPQRSTUVWXYZ'' ''abcdefghijklmnopqrstuvwxyz'') c of
        Some d \<Rightarrow> d
      | None \<Rightarrow> c)"

definition toLowerCase :: "string \<Rightarrow> string" where
  "toLowerCase s = map toLowerChar s"

text \<open>\<open>startsWith s p\<close> is \<open>s.startsWith(p)\<close>; \<open>includes_str s p\<close> is \<open>s.includes(p)\<close>:
  \<open>p\<close> occurs in \<open>s\<close> as a contiguous run of characters.\<close>

fun startsWith :: "string \<Rightarrow> string \<Rightarrow> bool" where
  "startsWith s [] = True"
| "startsWith [] (p # ps) = False"
| "startsWith (c # cs) (p # ps) = (c = p \<and> startsWith cs ps)"

fun includes_str :: "string \<Rightarrow> string \<Rightarrow> bool" where
  "includes_str [] p = (p = [])"
| "includes_str (c # cs) p = (startsWith (c # cs) p \<or> includes_str cs p)"

text \<open>Characters of the source that are not ASCII, as UTF-8 bytes.\<close>

definition en_dash :: string where
  "en_dash = [char_of (0xE2 :: nat), char_of (0x80 :: nat), char_of (0x93 :: nat)]"

definition plus_minus :: string where
  "plus_minus = [char_of (0xC2 :: nat), char_of (0xB1 :: nat)]"

definition right_arrow :: string where
  "right_arrow = [char_of (0xE2 :: nat), char_of (0x86 :: nat), char_of (0x92 :: nat)]"

section \<open>Stage descriptions\<close>

text \<open>
  \<open>lookup_or d k dflt\<close> is \<open>d[k] || dflt\<close> for an object literal \<open>d\<close> whose values are
  non-empty strings. Only the properties written in the literal are looked up: for the two
  lower-case names that every object inherits (\<open>constructor\<close>, \<open>__proto__\<close>) the source
  reads a value that is not a string and equals none of the table's values, where the
  model gives \<open>dflt\<close>.
\<close>

definition lookup_or :: "(string \<times> string) list \<Rightarrow> string \<Rightarrow> string \<Rightarrow> string" where
  "lookup_or d k dflt = (case map_of d k of Some v \<Rightarrow> v | None \<Rightarrow> dflt)"

definition getGallbladderStageDescription :: "string \<Rightarrow> string" where
  "getGallbladderStageDescription stage =
     lookup_or
       [(''Stage I'', ''Early stage cancer confined to gallbladder wall''),
        (''Stage II'', ''Tumor has reached outer layer of gallbladder''),
        (''Stage IIIA'', ''Tumor has spread to nearby lymph nodes''),
        (''Stage IIIB'', ''Tumor has invaded liver or nearby organs''),
        (''Stage IVA'', ''Tumor has spread to major blood vessels or multiple organs''),
        (''Stage IVB'', ''Advanced cancer with distant metastasis'')]
       stage ''Staging information not available''"

definition getEsophagealStageDescription :: "string \<Rightarrow> string" where
  "getEsophagealStageDescription stage =
     lookup_or
       [(''Stage I'', ''Early stage confined to inner layer of esophagus''),
        (''Stage II'', ''Tumor has reached deeper layers of esophagus''),
        (''Stage III'', ''Spread to nearby lymph nodes''),
        (''Stage IVA'', ''Invaded nearby organs''),
        (''Stage IVB'', ''Metastasis to distant organs'')]
       stage stage"

definition getBreastStageDescription :: "string \<Rightarrow> string" where
  "getBreastStageDescription stage =
     lookup_or
       [(''Stage I'', ''Early stage, small tumor, no lymph node spread''),
        (''Stage II'', ''Moderate-sized tumor or limited lymph node involvement''),
        (''Stage III'', ''Large tumor or extensive lymph node involvement''),
        (''Stage IV'', ''Metastasis to distant organs'')]
       stage ''Staging information not available''"

definition getLungStageDescription :: "string \<Rightarrow> string" where
  "getLungStageDescription stage =
     lookup_or
       [(''Stage I'', ''Early stage confined to lung only''),
        (''Stage II'', ''Large tumor or spread to nearby lymph nodes''),
        (''Stage III'', ''Locally advanced, spread within chest''),
        (''Stage IV'', ''Metastasis to distant organs'')]
       stage ''Staging information not available''"

definition getColorectalStageDescription :: "string \<Rightarrow> string" where
  "getColorectalStageDescription stage =
     lookup_or
       [(''Stage I'', ''Early stage confined to bowel wall''),
        (''Stage II'', ''Penetrated bowel wall but no lymph node spread''),
        (''Stage III'', ''Spread to nearby lymph nodes''),
        (''Stage IV'', ''Metastasis to distant organs'')]
       stage ''Staging information not available''"

definition getHeadNeckStageDescription :: "string \<Rightarrow> string" where
  "getHeadNeckStageDescription stage =
     lookup_or
       [(''Stage I'', ''Small tumor, locally confined''),
        (''Stage II'', ''Large tumor but no lymph node spread''),
        (''Stage III'', ''Spread to nearby lymph nodes''),
        (''Stage IVA'', ''Locally advanced disease''),
        (''Stage IVC'', ''Distant metastasis'')]
       stage stage"

section \<open>Treatment guidelines\<close>

definition treatmentDict :: "(string \<times> (string \<times> string) list) list" where
  "treatmentDict =
     [(''gallbladder'',
        [(''I'', ''Surgical resection (simple cholecystectomy or wedge resection).''),
         (''II'', ''Extended cholecystectomy with lymph node dissection.''),
         (''III'', ''Surgical resection '' @ plus_minus @ '' adjuvant chemoradiotherapy.''),
         (''IV'', ''Systemic chemotherapy (e.g., gemcitabine + cisplatin).'')]),
      (''esophageal'',
        [(''I'', ''Endoscopic mucosal resection or esophagectomy.''),
         (''II'', ''Neoadjuvant chemoradiotherapy followed by surgery.''),
         (''III'', ''Definitive chemoradiation or surgery after neoadjuvant therapy.''),
         (''IV'', ''Systemic therapy or palliative RT/stent placement.'')]),
      (''breast'',
        [(''I'', ''Surgery (BCS or mastectomy) '' @ plus_minus @ '' adjuvant RT.''),
         (''II'', ''Surgery + chemo/hormonal therapy + radiation.''),
         (''III'', ''Neoadjuvant chemotherapy '' @ right_arrow @ '' surgery + adjuvant therapy.''),
         (''IV'', ''Systemic therapy based on biomarkers.'')]),
      (''lung'',
        [(''I'', ''Surgical resection '' @ plus_minus @ '' adjuvant chemo.''),
         (''II'', ''Surgery + chemo '' @ plus_minus @ '' radiation.''),
         (''III'', ''Concurrent chemoradiotherapy '' @ plus_minus @ '' immunotherapy.''),
         (''IV'', ''Targeted therapy, immunotherapy, or chemo.'')]),
      (''colorectal'',
        [(''I'', ''Surgical resection (segmental colectomy).''),
         (''II'', ''Surgery '' @ plus_minus @ '' adjuvant chemo (if high-risk).''),
         (''III'', ''Surgery + adjuvant FOLFOX or CAPOX.''),
         (''IV'', ''Systemic therapy '' @ plus_minus @ '' targeted therapy.'')]),
      (''head and neck'',
        [(''I'', ''Surgery or radiation alone.''),
         (''II'', ''Surgery '' @ plus_minus @ '' adjuvant RT.''),
         (''III'', ''Surgery + RT/chemo or concurrent chemoradiation.''),
         (''IV'', ''Systemic therapy '' @ plus_minus @ '' RT. Consider immunotherapy.'')])]"

text \<open>\<open>stageGroupOf\<close> is the block of \<open>getTreatmentGuidelines\<close> that computes its local
  variable \<open>stageGroup\<close>.\<close>

definition stageGroupOf :: "string \<Rightarrow> string" where
  "stageGroupOf stage =
     (if includes_str stage ''I'' \<and> \<not> includes_str stage ''V'' then ''I''
      else if includes_str stage ''II'' then ''II''
      else if includes_str stage ''III'' then ''III''
      else if includes_str stage ''IV'' then ''IV''
      else ''Unknown'')"

definition getTreatmentGuidelines :: "string \<Rightarrow> string \<Rightarrow> string" where
  "getTreatmentGuidelines cancerType stage =
     (let stageGroup = stageGroupOf stage in
      case map_of treatmentDict cancerType of
        None \<Rightarrow> ''Treatment information not available.''
      | Some entries \<Rightarrow> lookup_or entries stageGroup ''Treatment information not available.'')"

section \<open>Data model (types/medical)\<close>

text \<open>
  \<open>tumor_size_cm\<close> and \<open>lymph_nodes_involved\<close> are JavaScript numbers. Sizes are
  modelled as reals and node counts as integers; NaN and the infinities are not
  represented. \<open>confidence_scores\<close> is an object, kept as its list of entries.
\<close>

record MedicalFeatures =
  cancer_type :: string
  tumor_size_cm :: real
  lymph_nodes_involved :: int
  distant_metastasis :: bool
  liver_invasion :: bool
  tumor_depth :: string
  confidence_scores :: "(string \<times> real) list"
  extracted_values :: "(string \<times> string list) list"

record TNMStaging =
  T :: string
  N :: string
  M :: string
  stage :: string
  substage :: "string option"
  description :: string

section \<open>Per-cancer staging tables\<close>

definition stageGallbladderCancer :: "MedicalFeatures \<Rightarrow> TNMStaging" where
  "stageGallbladderCancer features =
     (let T = (if liver_invasion features then ''T3''
               else if tumor_size_cm features > 2 then ''T2''
               else if tumor_size_cm features > 0 then ''T1''
               else ''Tx'');
          N = (if lymph_nodes_involved features = 0 then ''N0''
               else if lymph_nodes_involved features \<le> 3 then ''N1''
               else ''N2'');
          M = (if distant_metastasis features then ''M1'' else ''M0'');
          stage = (if M = ''M1'' then ''Stage IVB''
                   else if T = ''T3'' \<and> N \<noteq> ''N0'' then ''Stage IVA''
                   else if T = ''T3'' then ''Stage IIIB''
                   else if T = ''T2'' \<and> N = ''N0'' then ''Stage II''
                   else if T \<in> set [''T1'', ''T2''] \<and> N \<noteq> ''N0'' then ''Stage IIIA''
                   else if T = ''T1'' \<and> N = ''N0'' then ''Stage I''
                   else ''Stage Unknown'')
      in \<lparr>T = T, N = N, M = M, stage = stage, substage = None,
          description = getGallbladderStageDescription stage\<rparr>)"

definition stageEsophagealCancer :: "MedicalFeatures \<Rightarrow> TNMStaging" where
  "stageEsophagealCancer features =
     (let depthToT = [(''mucosa'', ''T1''), (''submucosa'', ''T1b''), (''muscularis'', ''T2''),
                      (''adventitia'', ''T3''), (''adjacent structures'', ''T4'')];
          T = lookup_or depthToT (toLowerCase (tumor_depth features)) ''Tx'';
          N = (if lymph_nodes_involved features = 0 then ''N0''
               else if lymph_nodes_involved features \<le> 2 then ''N1''
               else if lymph_nodes_involved features \<le> 6 then ''N2''
               else ''N3'');
          M = (if distant_metastasis features then ''M1'' else ''M0'');
          stage = (if M = ''M1'' then ''Stage IVB''
                   else if T = ''T4'' \<or> N = ''N3'' then ''Stage IVA''
                   else if T \<in> set [''T2'', ''T3''] \<and> N \<in> set [''N0'', ''N1''] then ''Stage II''
                   else if T = ''T1'' \<and> N = ''N0'' then ''Stage I''
                   else ''Stage III'')
      in \<lparr>T = T, N = N, M = M, stage = stage, substage = None,
          description = getEsophagealStageDescription stage\<rparr>)"

definition stageBreastCancer :: "MedicalFeatures \<Rightarrow> TNMStaging" where
  "stageBreastCancer features =
     (let T = (if tumor_size_cm features \<le> 2 then ''T1''
               else if tumor_size_cm features \<le> 5 then ''T2''
               else ''T3'');
          N = (if lymph_nodes_involved features = 0 then ''N0''
               else if lymph_nodes_involved features \<le> 3 then ''N1''
               else if lymph_nodes_involved features \<le> 9 then ''N2''
               else ''N3'');
          M = (if distant_metastasis features then ''M1'' else ''M0'');
          stage = (if M = ''M1'' then ''Stage IV''
                   else if T = ''T1'' \<and> N = ''N0'' then ''Stage I''
                   else if T \<in> set [''T1'', ''T2''] \<and> N = ''N1'' then ''Stage II''
                   else if T = ''T3'' \<or> N \<in> set [''N2'', ''N3''] then ''Stage III''
                   else ''Stage Unknown'')
      in \<lparr>T = T, N = N, M = M, stage = stage, substage = None,
          description = getBreastStageDescription stage\<rparr>)"

definition stageLungCancer :: "MedicalFeatures \<Rightarrow> TNMStaging" where
  "stageLungCancer features =
     (let T = (if tumor_size_cm features \<le> 3 then ''T1''
               else if tumor_size_cm features \<le> 5 then ''T2''
               else if tumor_size_cm features \<le> 7 then ''T3''
               else ''T4'');
          N = (if lymph_nodes_involved features = 0 then ''N0''
               else if lymph_nodes_involved features \<le> 3 then ''N1''
               else ''N2'');
          M = (if distant_metastasis features then ''M1'' else ''M0'');
          stage = (if M = ''M1'' then ''Stage IV''
                   else if T = ''T1'' \<and> N = ''N0'' then ''Stage I''
                   else if T \<in> set [''T2'', ''T3''] \<and> N \<in> set [''N0'', ''N1''] then ''Stage II''
                   else if T \<in> set [''T3'', ''T4''] \<or> N = ''N2'' then ''Stage III''
                   else ''Stage Unknown'')
      in \<lparr>T = T, N = N, M = M, stage = stage, substage = None,
          description = getLungStageDescription stage\<rparr>)"

definition stageColorectalCancer :: "MedicalFeatures \<Rightarrow> TNMStaging" where
  "stageColorectalCancer features =
     (let depthToT = [(''submucosa'', ''T1''), (''muscularis propria'', ''T2''),
                      (''subserosa'', ''T3''), (''peritoneum/invasion'', ''T4'')];
          T = lookup_or depthToT (toLowerCase (tumor_depth features)) ''Tx'';
          N = (if lymph_nodes_involved features = 0 then ''N0''
               else if lymph_nodes_involved features \<le> 3 then ''N1''
               else ''N2'');
          M = (if distant_metastasis features then ''M1'' else ''M0'');
          stage = (if M = ''M1'' then ''Stage IV''
                   else if T \<in> set [''T1'', ''T2''] \<and> N = ''N0'' then ''Stage I''
                   else if T = ''T3'' \<and> N = ''N0'' then ''Stage II''
                   else if N \<in> set [''N1'', ''N2''] then ''Stage III''
                   else ''Stage Unknown'')
      in \<lparr>T = T, N = N, M = M, stage = stage, substage = None,
          description = getColorectalStageDescription stage\<rparr>)"

definition stageHeadNeckCancer :: "MedicalFeatures \<Rightarrow> TNMStaging" where
  "stageHeadNeckCancer features =
     (let T = (if tumor_size_cm features \<le> 2 then ''T1''
               else if tumor_size_cm features \<le> 4 then ''T2''
               else ''T3'');
          N = (if lymph_nodes_involved features = 0 then ''N0''
               else if lymph_nodes_involved features = 1 then ''N1''
               else if lymph_nodes_involved features \<le> 3 then ''N2''
               else ''N3'');
          M = (if distant_metastasis features then ''M1'' else ''M0'');
          stage = (if M = ''M1'' then ''Stage IVC''
                   else if T = ''T1'' \<and> N = ''N0'' then ''Stage I''
                   else if T \<in> set [''T1'', ''T2''] \<and> N \<in> set [''N1'', ''N2'']
                     then ''Stage II'' @ en_dash @ ''III''
                   else if T = ''T3'' \<or> N = ''N3'' then ''Stage IV''
                   else ''Stage Unknown'')
      in \<lparr>T = T, N = N, M = M, stage = stage, substage = None,
          description = getHeadNeckStageDescription stage\<rparr>)"

definition determineTNMStage :: "string \<Rightarrow> MedicalFeatures \<Rightarrow> TNMStaging" where
  "determineTNMStage cancerType features =
     (let type = toLowerCase cancerType in
      if type = ''gallbladder'' then stageGallbladderCancer features
      else if type = ''esophageal'' then stageEsophagealCancer features
      else if type = ''breast'' then stageBreastCancer features
      else if type = ''lung'' then stageLungCancer features
      else if type = ''colorectal'' then stageColorectalCancer features
      else if type = ''head and neck'' \<or> type = ''oral cavity'' \<or> type = ''oropharynx''
        then stageHeadNeckCancer features
      else \<lparr>T = ''Unknown'', N = ''Unknown'', M = ''Unknown'', stage = ''Not available'',
            substage = None,
            description = ''Staging not available for '' @ cancerType\<rparr>)"

section \<open>Document processing (document-processor.ts)\<close>

text \<open>
  A thrown JavaScript value is an \<open>Error\<close> with its message, or some other value; the
  handlers read it with \<open>error instanceof Error ? error.message : 'Unknown error'\<close>.
\<close>

datatype thrown = Error string | NotAnError

definition errorMessage :: "thrown \<Rightarrow> string" where
  "errorMessage e = (case e of Error m \<Rightarrow> m | NotAnError \<Rightarrow> ''Unknown error'')"

text \<open>\<open>trim\<close> removes leading and trailing white space (the ASCII white space
  characters); \<open>join sep xs\<close> is \<open>xs.join(sep)\<close>.\<close>

definition isWhiteSpace :: "char \<Rightarrow> bool" where
  "isWhiteSpace c \<longleftrightarrow> c \<in> set [CHR '' '', CHR 0x09, CHR 0x0A, CHR 0x0B, CHR 0x0C, CHR 0x0D]"

definition trim :: "string \<Rightarrow> string" where
  "trim s = rev (dropWhile isWhiteSpace (rev (dropWhile isWhiteSpace s)))"

fun join :: "string \<Rightarrow> string list \<Rightarrow> string" where
  "join sep [] = []"
| "join sep [x] = x"
| "join sep (x # y # ys) = x @ sep @ join sep (y # ys)"

text \<open>
  The libraries are outside the repository; what they return is a parameter of the model.
  A \<open>Blob\<close> is the bytes of a file or of a rendered image. A PDF.js page gives its text
  items (\<open>getTextContent\<close>, the \<open>str\<close> of each item) and its rendering on a canvas as a
  PNG blob (\<open>render\<close>, standing for \<open>getViewport\<close>, \<open>page.render\<close> and \<open>canvas.toBlob\<close>);
  each call may throw.
\<close>

type_synonym Blob = "nat list"

record File =
  name :: string
  size_bytes :: nat
  type :: string
  content :: Blob

record PDFPage =
  getTextContent :: "thrown + string list"
  render :: "thrown + Blob"

record PDFDocument =
  numPages :: nat
  getPage :: "nat \<Rightarrow> thrown + PDFPage"

text \<open>
  \<open>createWorker\<close> is \<open>None\<close> when Tesseract's \<open>createWorker('eng')\<close> succeeds, and the value
  it throws otherwise. \<open>recognize\<close> gives Tesseract's text and confidence (0 to 100).
  \<open>startTime\<close> and \<open>endTime\<close> are the two readings of \<open>Date.now()\<close>.
\<close>

record Libs =
  arrayBuffer :: "File \<Rightarrow> thrown + Blob"
  createWorker :: "thrown option"
  recognize :: "Blob \<Rightarrow> thrown + string \<times> real"
  getDocument :: "Blob \<Rightarrow> thrown + PDFDocument"
  extractRawText :: "Blob \<Rightarrow> thrown + string"
  startTime :: real
  endTime :: real

record OCRResult =
  ocr_text :: string
  confidence :: real
  ocr_method :: string
  processing_time :: real
  page_count :: nat
  file_info :: "string \<times> nat \<times> string"

text \<open>
  The state of a \<open>DocumentProcessor\<close> is its field \<open>tesseractWorker\<close>: \<open>False\<close> for
  \<open>null\<close>, \<open>True\<close> once a worker exists. Every method returns its outcome and the new state.
\<close>

definition initializeTesseract :: "Libs \<Rightarrow> bool \<Rightarrow> (thrown + unit) \<times> bool" where
  "initializeTesseract libs tesseractWorker =
     (if \<not> tesseractWorker then
        (case createWorker libs of
           Some e \<Rightarrow> (Inl e, tesseractWorker)
         | None \<Rightarrow> (Inr (), True))
      else (Inr (), tesseractWorker))"

definition processImageBlob :: "Libs \<Rightarrow> bool \<Rightarrow> Blob \<Rightarrow> (thrown + string \<times> real) \<times> bool" where
  "processImageBlob libs tesseractWorker blob =
     (case initializeTesseract libs tesseractWorker of
        (Inl e, w) \<Rightarrow> (Inl (Error (''OCR processing failed: '' @ errorMessage e)), w)
      | (Inr u, w) \<Rightarrow>
          (case recognize libs blob of
             Inl e \<Rightarrow> (Inl (Error (''OCR processing failed: '' @ errorMessage e)), w)
           | Inr (txt, conf) \<Rightarrow> (Inr (trim txt, conf / 100), w)))"

definition processImage :: "Libs \<Rightarrow> bool \<Rightarrow> File \<Rightarrow> (thrown + string \<times> real) \<times> bool" where
  "processImage libs tesseractWorker file = processImageBlob libs tesseractWorker (content file)"

definition processDOCX :: "Libs \<Rightarrow> File \<Rightarrow> thrown + string" where
  "processDOCX libs file =
     (case arrayBuffer libs file of
        Inl e \<Rightarrow> Inl (Error (''DOCX processing failed: '' @ errorMessage e))
      | Inr buffer \<Rightarrow>
          (case extractRawText libs buffer of
             Inl e \<Rightarrow> Inl (Error (''DOCX processing failed: '' @ errorMessage e))
           | Inr v \<Rightarrow>
               if trim v = [] then
                 Inl (Error (''DOCX processing failed: '' @
                        errorMessage (Error ''No text could be extracted from DOCX file'')))
               else Inr v))"

text \<open>The loop \<open>for (let i = 1; i <= pageCount; i++)\<close> of \<open>processPDF\<close>, with its
  accumulator \<open>text\<close>; a page that cannot be read ends it with the thrown value.\<close>

function extractPages :: "PDFDocument \<Rightarrow> nat \<Rightarrow> nat \<Rightarrow> string \<Rightarrow> thrown + string" where
  "extractPages pdf pageCount i txt =
     (if i \<le> pageCount then
        (case getPage pdf i of
           Inl e \<Rightarrow> Inl e
         | Inr page \<Rightarrow>
             (case getTextContent page of
                Inl e \<Rightarrow> Inl e
              | Inr items \<Rightarrow>
                  extractPages pdf pageCount (i + 1) (txt @ join '' '' items @ [CHR 0x0A])))
      else Inr txt)"
  by pat_completeness auto
termination
  by (relation "measure (\<lambda>(pdf, pageCount, i, txt). Suc pageCount - i)") auto

declare extractPages.simps [simp del]

text \<open>The result of \<open>processPDF\<close> is \<open>(text, confidence, method, pageCount)\<close>.\<close>

definition processPDF ::
  "Libs \<Rightarrow> bool \<Rightarrow> File \<Rightarrow> (thrown + string \<times> real \<times> string \<times> nat) \<times> bool" where
  "processPDF libs tesseractWorker file =
     (let failed = (\<lambda>e. Inl (Error (''PDF processing failed: '' @ errorMessage e))) in
      case arrayBuffer libs file of
        Inl e \<Rightarrow> (failed e, tesseractWorker)
      | Inr buffer \<Rightarrow>
      (case getDocument libs buffer of
        Inl e \<Rightarrow> (failed e, tesseractWorker)
      | Inr pdf \<Rightarrow>
      (let pageCount = numPages pdf in
       case extractPages pdf pageCount 1 [] of
        Inl e \<Rightarrow> (failed e, tesseractWorker)
      | Inr txt \<Rightarrow>
          if length (trim txt) > 100 then
            (Inr (trim txt, 0.95, ''standard_extraction'', pageCount), tesseractWorker)
          else
            (case getPage pdf 1 of
               Inl e \<Rightarrow> (failed e, tesseractWorker)
             | Inr page \<Rightarrow>
            (case render page of
               Inl e \<Rightarrow> (failed e, tesseractWorker)
             | Inr blob \<Rightarrow>
            (case processImageBlob libs tesseractWorker blob of
               (Inl e, w) \<Rightarrow> (failed e, w)
             | (Inr (txt', conf), w) \<Rightarrow> (Inr (txt', conf, ''pdf_ocr'', pageCount), w)))))))"

definition processDocument :: "Libs \<Rightarrow> bool \<Rightarrow> File \<Rightarrow> (thrown + OCRResult) \<times> bool" where
  "processDocument libs tesseractWorker file =
     (let failed = (\<lambda>e. Inl (Error (''Document processing failed: '' @ errorMessage e)));
          done = (\<lambda>txt conf meth pageCount.
                    Inr \<lparr>ocr_text = txt, confidence = conf, ocr_method = meth,
                         processing_time = (endTime libs - startTime libs) / 1000,
                         page_count = pageCount,
                         file_info = (name file, size_bytes file, type file)\<rparr>);
          fileType = type file in
      if fileType = ''application/pdf'' then
        (case processPDF libs tesseractWorker file of
           (Inl e, w) \<Rightarrow> (failed e, w)
         | (Inr (txt, conf, meth, pageCount), w) \<Rightarrow> (done txt conf meth pageCount, w))
      else if fileType = ''application/vnd.openxmlformats-officedocument.wordprocessingml.document'' then
        (case processDOCX libs file of
           Inl e \<Rightarrow> (failed e, tesseractWorker)
         | Inr txt \<Rightarrow> (done txt 0.95 ''docx_extraction'' 1, tesseractWorker))
      else if startsWith fileType ''image/'' then
        (case processImage libs tesseractWorker file of
           (Inl e, w) \<Rightarrow> (failed e, w)
         | (Inr (txt, conf), w) \<Rightarrow> (done txt conf ''tesseract_ocr'' 1, w))
      else (failed (Error ''Unsupported file type''), tesseractWorker))"

section \<open>Regular expressions\<close>





























section \<open>Feature extraction (utils.ts, DocumentProcessor.extractFeatures)\<close>




fun split :: "char \<Rightarrow> string \<Rightarrow> string list" where
  "split sep [] = [[]]"
| "split sep (c # cs) =
     (if c = sep then [] # split sep cs
      else (case split sep cs of p # ps \<Rightarrow> (c # p) # ps | [] \<Rightarrow> [[c]]))"










section \<open>Vocabulary of the properties\<close>

text \<open>The case labels of the \<open>switch\<close> in \<open>determineTNMStage\<close>.\<close>

definition supportedTypes :: "string list" where
  "supportedTypes = [''gallbladder'', ''esophageal'', ''breast'', ''lung'', ''colorectal'',
                     ''head and neck'', ''oral cavity'', ''oropharynx'']"




text \<open>A \<open>MedicalFeatures\<close> value with the given staging inputs, for concrete examples.\<close>

definition exampleFeatures :: "real \<Rightarrow> int \<Rightarrow> bool \<Rightarrow> bool \<Rightarrow> string \<Rightarrow> MedicalFeatures" where
  "exampleFeatures sz nodes meta liver depth =
     \<lparr>cancer_type = '''', tumor_size_cm = sz, lymph_nodes_involved = nodes,
      distant_metastasis = meta, liver_invasion = liver, tumor_depth = depth,
      confidence_scores = [], extracted_values = []\<rparr>"





definition pngFile :: File where
  "pngFile = \<lparr>name = ''scan.png'', size_bytes = 4, type = ''image/png'', content = [137, 80, 78, 71]\<rparr>"





definition textPdf :: PDFDocument where
  "textPdf =
     \<lparr>numPages = 2,
      getPage = (\<lambda>i.
        if i = 1 then
          Inr \<lparr>getTextContent = Inr [''FINDINGS:'',
                   ''There is a hypermetabolic mass in the right breast measuring 3.2 cm with 2 enlarged axillary lymph nodes.''],
               render = Inr [1]\<rparr>
        else if i = 2 then
          Inr \<lparr>getTextContent = Inr [''No distant metastasis.'', '' ''], render = Inr [2]\<rparr>
        else Inl (Error ''Invalid page request''))\<rparr>"

definition scanPdf :: PDFDocument where
  "scanPdf =
     \<lparr>numPages = 1,
      getPage = (\<lambda>i.
        if i = 1 then Inr \<lparr>getTextContent = Inr [], render = Inr [137, 80, 78, 71]\<rparr>
        else Inl (Error ''Invalid page request''))\<rparr>"

definition exampleLibs :: Libs where
  "exampleLibs =
     \<lparr>arrayBuffer = (\<lambda>file. Inr (content file)),
      createWorker = None,
      recognize = (\<lambda>blob. if blob = [137, 80, 78, 71] then Inr ('' Breast mass 3 cm  '', 87)
                             else Inl NotAnError),
      getDocument = (\<lambda>buffer. if buffer = [37, 80, 68, 70, 1] then Inr textPdf
                                else if buffer = [37, 80, 68, 70, 2] then Inr scanPdf
                                else Inl (Error ''Invalid PDF structure'')),
      extractRawText = (\<lambda>buffer. Inr ''''),
      startTime = 1000,
      endTime = 3500\<rparr>"

section \<open>The processing run (page.tsx, ProcessingSteps.tsx)\<close>

text \<open>The steps of the progress indicator (without their icons).\<close>

record Step =
  step_id :: nat
  step_title :: string
  step_description :: string

definition steps :: "Step list" where
  "steps =
     [\<lparr>step_id = 1, step_title = ''Document Upload'',
        step_description = ''Upload and validate your PET/CT report''\<rparr>,
      \<lparr>step_id = 2, step_title = ''OCR Processing'',
        step_description = ''Extract text using advanced OCR technology''\<rparr>,
      \<lparr>step_id = 3, step_title = ''Feature Extraction'',
        step_description = ''Identify medical features and staging information''\<rparr>,
      \<lparr>step_id = 4, step_title = ''TNM Staging'',
        step_description = ''Calculate TNM staging based on extracted features''\<rparr>,
      \<lparr>step_id = 5, step_title = ''AI Analysis'',
        step_description = ''Generate AI-powered clinical insights''\<rparr>]"

text \<open>
  \<open>document\<close> is \<open>(text, file_name, file_type, file_size, text_length, processing_time)\<close>.
  \<open>extraction_result\<close> and \<open>clinical_recommendations\<close> are never assigned.
\<close>

record ProcessingResult =
  success :: bool
  document :: "(string \<times> string \<times> string \<times> nat \<times> nat \<times> real) option"
  features :: "MedicalFeatures option"
  staging :: "TNMStaging option"
  ai_analysis :: "string option"
  error :: "string option"

record AppState =
  current_step :: nat
  ocr_result :: "OCRResult option"
  extraction_result :: "unit option"
  clinical_recommendations :: "unit option"
  processing_results :: "ProcessingResult option"

definition initialAppState :: AppState where
  "initialAppState =
     \<lparr>current_step = 1, ocr_result = None, extraction_result = None,
      clinical_recommendations = None, processing_results = None\<rparr>"

definition errorResult :: "thrown \<Rightarrow> ProcessingResult" where
  "errorResult e =
     \<lparr>success = False, document = None, features = None, staging = None, ai_analysis = None,
      error = Some (case e of Error m \<Rightarrow> m | NotAnError \<Rightarrow> ''Processing failed'')\<rparr>"

text \<open>
  \<open>handleFileSelect\<close> awaits \<open>documentProcessor.processDocument\<close> and
  \<open>documentProcessor.extractFeatures\<close>, here the parameters \<open>processDoc\<close> and
  \<open>extractFeats\<close>. It returns the application states after each call of \<open>setAppState\<close>,
  in order, starting from the state \<open>prev\<close>. (The progress percentage and the processing
  flag are separate state variables and are left out.)
\<close>

definition handleFileSelect ::
  "(File \<Rightarrow> thrown + OCRResult) \<Rightarrow> (string \<Rightarrow> thrown + MedicalFeatures) \<Rightarrow> File \<Rightarrow>
     AppState \<Rightarrow> AppState list" where
  "handleFileSelect processDoc extractFeats file prev =
     (let s1 = prev\<lparr>current_step := 2\<rparr> in
      case processDoc file of
        Inl e \<Rightarrow> [s1, s1\<lparr>processing_results := Some (errorResult e)\<rparr>]
      | Inr ocrResult \<Rightarrow>
          (let s2 = s1\<lparr>ocr_result := Some ocrResult\<rparr>;
               s3 = s2\<lparr>current_step := 3\<rparr> in
           case extractFeats (ocr_text ocrResult) of
             Inl e \<Rightarrow> [s1, s2, s3, s3\<lparr>processing_results := Some (errorResult e)\<rparr>]
           | Inr fs \<Rightarrow>
               (let s4 = s3\<lparr>current_step := 4\<rparr>;
                    stg = determineTNMStage (cancer_type fs) fs;
                    s5 = s4\<lparr>current_step := 5\<rparr>;
                    processingResult =
                      \<lparr>success = True,
                       document = Some (ocr_text ocrResult, name file, type file, size_bytes file,
                                        length (ocr_text ocrResult), processing_time ocrResult),
                       features = Some fs,
                       staging = Some stg,
                       ai_analysis =
                         (if cancer_type fs \<noteq> [] then
                            Some (''Based on the analysis, this appears to be '' @ stage stg @ '' '' @
                                  cancer_type fs @ '' cancer. '' @ description stg)
                          else None),
                       error = None\<rparr>;
                    s6 = s5\<lparr>processing_results := Some processingResult, current_step := 5\<rparr>
                in [s1, s2, s3, s4, s5, s6])))"

text \<open>A list of step numbers advances linearly when each one is the one before it or its
  successor. \<open>stepTrace\<close> is \<open>current_step\<close> before a run and after each of its updates.\<close>

fun advancesLinearly :: "nat list \<Rightarrow> bool" where
  "advancesLinearly [] = True"
| "advancesLinearly [x] = True"
| "advancesLinearly (x # y # ys) = ((y = x \<or> y = x + 1) \<and> advancesLinearly (y # ys))"

definition stepTrace ::
  "(File \<Rightarrow> thrown + OCRResult) \<Rightarrow> (string \<Rightarrow> thrown + MedicalFeatures) \<Rightarrow> File \<Rightarrow>
     AppState \<Rightarrow> nat list" where
  "stepTrace processDoc extractFeats file prev =
     map current_step (prev # handleFileSelect processDoc extractFeats file prev)"

definition exampleProcessDoc :: "File \<Rightarrow> thrown + OCRResult" where
  "exampleProcessDoc f = fst (processDocument exampleLibs False f)"

definition exampleExtract :: "string \<Rightarrow> thrown + MedicalFeatures" where
  "exampleExtract t = Inr ((exampleFeatures 3 0 False False [])\<lparr>cancer_type := ''breast''\<rparr>)"





section \<open>Staging: helper lemmas\<close>

lemmas stager_defs = stageGallbladderCancer_def stageEsophagealCancer_def stageBreastCancer_def
  stageLungCancer_def stageColorectalCancer_def stageHeadNeckCancer_def



lemma lower_examples:
  "toLowerCase ''BrEaSt'' = ''breast''" "toLowerCase ''skin'' = ''skin''"
  "toLowerCase ''Oral Cavity'' = ''oral cavity''" "toLowerCase ''GALLBLADDER'' = ''gallbladder''"
  "toLowerCase ''Esophageal'' = ''esophageal''" "toLowerCase ''LUNG'' = ''lung''"
  "toLowerCase ''ColoRectal'' = ''colorectal''"
  by (simp_all add: toLowerCase_def toLowerChar_def)



lemma M_of_stagers:
  "M (stageGallbladderCancer f) = (if distant_metastasis f then ''M1'' else ''M0'')"
  "M (stageEsophagealCancer f) = (if distant_metastasis f then ''M1'' else ''M0'')"
  "M (stageBreastCancer f) = (if distant_metastasis f then ''M1'' else ''M0'')"
  "M (stageLungCancer f) = (if distant_metastasis f then ''M1'' else ''M0'')"
  "M (stageColorectalCancer f) = (if distant_metastasis f then ''M1'' else ''M0'')"
  "M (stageHeadNeckCancer f) = (if distant_metastasis f then ''M1'' else ''M0'')"
  by (simp_all add: stager_defs Let_def)

lemma stage_metastatic:
  assumes "distant_metastasis f"
  shows "stage (stageGallbladderCancer f) = ''Stage IVB''"
    and "stage (stageEsophagealCancer f) = ''Stage IVB''"
    and "stage (stageBreastCancer f) = ''Stage IV''"
    and "stage (stageLungCancer f) = ''Stage IV''"
    and "stage (stageColorectalCancer f) = ''Stage IV''"
    and "stage (stageHeadNeckCancer f) = ''Stage IVC''"
  using assms by (simp_all add: stager_defs Let_def)

lemma supported_cases:
  assumes "toLowerCase c \<in> set supportedTypes"
  obtains "determineTNMStage c = stageGallbladderCancer" "toLowerCase c = ''gallbladder''"
  | "determineTNMStage c = stageEsophagealCancer" "toLowerCase c = ''esophageal''"
  | "determineTNMStage c = stageBreastCancer" "toLowerCase c = ''breast''"
  | "determineTNMStage c = stageLungCancer" "toLowerCase c = ''lung''"
  | "determineTNMStage c = stageColorectalCancer" "toLowerCase c = ''colorectal''"
  | "determineTNMStage c = stageHeadNeckCancer"
    "toLowerCase c \<in> {''head and neck'', ''oral cavity'', ''oropharynx''}"
proof -
  from assms consider "toLowerCase c = ''gallbladder''" | "toLowerCase c = ''esophageal''"
    | "toLowerCase c = ''breast''" | "toLowerCase c = ''lung''" | "toLowerCase c = ''colorectal''"
    | "toLowerCase c \<in> {''head and neck'', ''oral cavity'', ''oropharynx''}"
    by (auto simp add: supportedTypes_def)
  then show thesis
  proof cases
    case 1 then show ?thesis using that(1) by (simp add: determineTNMStage_def fun_eq_iff)
  next
    case 2 then show ?thesis using that(2) by (simp add: determineTNMStage_def fun_eq_iff)
  next
    case 3 then show ?thesis using that(3) by (simp add: determineTNMStage_def fun_eq_iff)
  next
    case 4 then show ?thesis using that(4) by (simp add: determineTNMStage_def fun_eq_iff)
  next
    case 5 then show ?thesis using that(5) by (simp add: determineTNMStage_def fun_eq_iff)
  next
    case 6 then show ?thesis using that(6) by (auto simp add: determineTNMStage_def fun_eq_iff)
  qed
qed






lemma stageGroupOf_I: "includes_str s ''I'' \<Longrightarrow> \<not> includes_str s ''V'' \<Longrightarrow> stageGroupOf s = ''I''"
  by (simp add: stageGroupOf_def)

lemma stageGroupOf_II_III: "stageGroupOf ''Stage II'' = ''I''" "stageGroupOf ''Stage III'' = ''I''"
  by (simp_all add: stageGroupOf_def)

section \<open>Staging: dispatch\<close>



section \<open>Staging: metastasis\<close>

text \<open>
  Claim C8. For a supported cancer type, M is \<open>M1\<close> exactly when \<open>distant_metastasis\<close> is
  set and \<open>M0\<close> otherwise, and with \<open>distant_metastasis\<close> set the overall stage is the
  metastatic stage of the type (Stage IVB for gallbladder and esophageal, Stage IV for
  breast, lung and colorectal, Stage IVC for head and neck), whatever the other fields.
\<close>

theorem C8_metastasis_decides_M_and_stage:
  assumes "toLowerCase cancerType \<in> set supportedTypes"
  shows "(M (determineTNMStage cancerType f) = ''M1'' \<longleftrightarrow> distant_metastasis f) \<and>
         (M (determineTNMStage cancerType f) = ''M0'' \<longleftrightarrow> \<not> distant_metastasis f) \<and>
         (distant_metastasis f \<longrightarrow>
            stage (determineTNMStage cancerType f) =
              (if toLowerCase cancerType \<in> {''gallbladder'', ''esophageal''} then ''Stage IVB''
               else if toLowerCase cancerType \<in> {''breast'', ''lung'', ''colorectal''} then ''Stage IV''
               else ''Stage IVC''))"
  using assms
proof (cases rule: supported_cases)
  case 1 then show ?thesis by (simp add: M_of_stagers stage_metastatic)
next
  case 2 then show ?thesis by (simp add: M_of_stagers stage_metastatic)
next
  case 3 then show ?thesis by (simp add: M_of_stagers stage_metastatic)
next
  case 4 then show ?thesis by (simp add: M_of_stagers stage_metastatic)
next
  case 5 then show ?thesis by (simp add: M_of_stagers stage_metastatic)
next
  case 6 then show ?thesis by (auto simp add: M_of_stagers stage_metastatic)
qed

theorem C8_metastasis_decides_M_and_stage_witness:
  "toLowerCase ''BrEaSt'' \<in> set supportedTypes \<and>
   distant_metastasis (exampleFeatures 9 12 True True ''mucosa'') \<and>
   M (determineTNMStage ''BrEaSt'' (exampleFeatures 9 12 True True ''mucosa'')) = ''M1'' \<and>
   stage (determineTNMStage ''BrEaSt'' (exampleFeatures 9 12 True True ''mucosa'')) = ''Stage IV''"
proof -
  let ?f = "exampleFeatures 9 12 True True ''mucosa''"
  have h: "toLowerCase ''BrEaSt'' \<in> set supportedTypes"
    by (simp add: lower_examples supportedTypes_def)
  have m: "distant_metastasis ?f"
    by (simp add: exampleFeatures_def)
  from C8_metastasis_decides_M_and_stage [OF h, of ?f] m h show ?thesis
    by (simp add: lower_examples)
qed

section \<open>Staging: thresholds and monotonicity\<close>




section \<open>Staging: inputs without a stage\<close>

text \<open>
  Claim C9. The tables are not total: without distant metastasis and with no involved
  lymph node, breast cancer with a tumor size above 2 and at most 5 and gallbladder cancer
  with tumor size 0 and no liver invasion both get the overall stage \<open>Stage Unknown\<close>.
\<close>

theorem C9_stage_unknown_reachable:
  "(2 < tumor_size_cm f \<and> tumor_size_cm f \<le> 5 \<and> lymph_nodes_involved f = 0 \<and>
      \<not> distant_metastasis f \<longrightarrow>
      stage (determineTNMStage ''breast'' f) = ''Stage Unknown'') \<and>
   (tumor_size_cm f = 0 \<and> \<not> liver_invasion f \<and> lymph_nodes_involved f = 0 \<and>
      \<not> distant_metastasis f \<longrightarrow>
      stage (determineTNMStage ''gallbladder'' f) = ''Stage Unknown'')"
  by (simp add: determineTNMStage_def toLowerCase_def toLowerChar_def stager_defs Let_def)

theorem C9_stage_unknown_reachable_witness:
  "2 < tumor_size_cm (exampleFeatures 3 0 False False '''') \<and>
   tumor_size_cm (exampleFeatures 3 0 False False '''') \<le> 5 \<and>
   lymph_nodes_involved (exampleFeatures 3 0 False False '''') = 0 \<and>
   \<not> distant_metastasis (exampleFeatures 3 0 False False '''') \<and>
   stage (determineTNMStage ''breast'' (exampleFeatures 3 0 False False '''')) = ''Stage Unknown'' \<and>
   tumor_size_cm (exampleFeatures 0 0 False False '''') = 0 \<and>
   \<not> liver_invasion (exampleFeatures 0 0 False False '''') \<and>
   lymph_nodes_involved (exampleFeatures 0 0 False False '''') = 0 \<and>
   \<not> distant_metastasis (exampleFeatures 0 0 False False '''') \<and>
   stage (determineTNMStage ''gallbladder'' (exampleFeatures 0 0 False False '''')) = ''Stage Unknown''"
  using C9_stage_unknown_reachable [of "exampleFeatures 3 0 False False ''''"] C9_stage_unknown_reachable [of "exampleFeatures 0 0 False False ''''"]
  by (simp add: exampleFeatures_def)

section \<open>Treatment guidelines: the stage group\<close>

text \<open>
  Claim C10. \<open>getTreatmentGuidelines\<close> tests first whether the stage contains \<open>I\<close> and no
  \<open>V\<close>, and such a stage gets the group \<open>I\<close>. So for every cancer type of the table the
  stages \<open>Stage II\<close> and \<open>Stage III\<close> return the text of group \<open>I\<close>, never the text of the
  groups \<open>II\<close> or \<open>III\<close>.
\<close>

theorem C10_stage_group_I_shadows_II_III:
  "(includes_str s ''I'' \<and> \<not> includes_str s ''V'' \<longrightarrow>
      stageGroupOf s = ''I'' \<and>
      getTreatmentGuidelines c s = getTreatmentGuidelines c ''I'') \<and>
   (map_of treatmentDict c = Some entries \<longrightarrow>
      map_of entries ''I'' \<noteq> None \<and>
      Some (getTreatmentGuidelines c ''Stage II'') = map_of entries ''I'' \<and>
      Some (getTreatmentGuidelines c ''Stage III'') = map_of entries ''I'' \<and>
      Some (getTreatmentGuidelines c ''Stage II'') \<noteq> map_of entries ''II'' \<and>
      Some (getTreatmentGuidelines c ''Stage II'') \<noteq> map_of entries ''III'' \<and>
      Some (getTreatmentGuidelines c ''Stage III'') \<noteq> map_of entries ''II'' \<and>
      Some (getTreatmentGuidelines c ''Stage III'') \<noteq> map_of entries ''III'')"
proof (intro conjI impI)
  assume "includes_str s ''I'' \<and> \<not> includes_str s ''V''"
  then show "stageGroupOf s = ''I''" by (simp add: stageGroupOf_I)
next
  assume "includes_str s ''I'' \<and> \<not> includes_str s ''V''"
  then show "getTreatmentGuidelines c s = getTreatmentGuidelines c ''I''"
    by (simp add: getTreatmentGuidelines_def stageGroupOf_I stageGroupOf_def)
next
  assume e: "map_of treatmentDict c = Some entries"
  then show "map_of entries ''I'' \<noteq> None"
    by (auto simp add: treatmentDict_def split: if_splits)
next
  assume e: "map_of treatmentDict c = Some entries"
  then show "Some (getTreatmentGuidelines c ''Stage II'') = map_of entries ''I''"
    by (auto simp add: getTreatmentGuidelines_def stageGroupOf_II_III lookup_or_def treatmentDict_def
        split: if_splits)
next
  assume e: "map_of treatmentDict c = Some entries"
  then show "Some (getTreatmentGuidelines c ''Stage III'') = map_of entries ''I''"
    by (auto simp add: getTreatmentGuidelines_def stageGroupOf_II_III lookup_or_def treatmentDict_def
        split: if_splits)
next
  assume e: "map_of treatmentDict c = Some entries"
  then show "Some (getTreatmentGuidelines c ''Stage II'') \<noteq> map_of entries ''II''"
    by (auto simp add: getTreatmentGuidelines_def stageGroupOf_II_III lookup_or_def treatmentDict_def
        plus_minus_def right_arrow_def split: if_splits)
next
  assume e: "map_of treatmentDict c = Some entries"
  then show "Some (getTreatmentGuidelines c ''Stage II'') \<noteq> map_of entries ''III''"
    by (auto simp add: getTreatmentGuidelines_def stageGroupOf_II_III lookup_or_def treatmentDict_def
        plus_minus_def right_arrow_def split: if_splits)
next
  assume e: "map_of treatmentDict c = Some entries"
  then show "Some (getTreatmentGuidelines c ''Stage III'') \<noteq> map_of entries ''II''"
    by (auto simp add: getTreatmentGuidelines_def stageGroupOf_II_III lookup_or_def treatmentDict_def
        plus_minus_def right_arrow_def split: if_splits)
next
  assume e: "map_of treatmentDict c = Some entries"
  then show "Some (getTreatmentGuidelines c ''Stage III'') \<noteq> map_of entries ''III''"
    by (auto simp add: getTreatmentGuidelines_def stageGroupOf_II_III lookup_or_def treatmentDict_def
        plus_minus_def right_arrow_def split: if_splits)
qed

theorem C10_stage_group_I_shadows_II_III_witness:
  "includes_str ''Stage III'' ''I'' \<and> \<not> includes_str ''Stage III'' ''V'' \<and>
   stageGroupOf ''Stage III'' = ''I'' \<and>
   map_of treatmentDict ''breast'' =
     Some [(''I'', ''Surgery (BCS or mastectomy) '' @ plus_minus @ '' adjuvant RT.''),
           (''II'', ''Surgery + chemo/hormonal therapy + radiation.''),
           (''III'', ''Neoadjuvant chemotherapy '' @ right_arrow @ '' surgery + adjuvant therapy.''),
           (''IV'', ''Systemic therapy based on biomarkers.'')] \<and>
   getTreatmentGuidelines ''breast'' ''Stage III'' =
     ''Surgery (BCS or mastectomy) '' @ plus_minus @ '' adjuvant RT.'' \<and>
   getTreatmentGuidelines ''breast'' ''Stage II'' =
     ''Surgery (BCS or mastectomy) '' @ plus_minus @ '' adjuvant RT.''"
proof -
  let ?entries = "[(''I'', ''Surgery (BCS or mastectomy) '' @ plus_minus @ '' adjuvant RT.''),
           (''II'', ''Surgery + chemo/hormonal therapy + radiation.''),
           (''III'', ''Neoadjuvant chemotherapy '' @ right_arrow @ '' surgery + adjuvant therapy.''),
           (''IV'', ''Systemic therapy based on biomarkers.'')]"
  have h1: "includes_str ''Stage III'' ''I'' \<and> \<not> includes_str ''Stage III'' ''V''"
    by simp
  have h2: "map_of treatmentDict ''breast'' = Some ?entries"
    by (simp add: treatmentDict_def)
  have i: "map_of ?entries ''I'' = Some (''Surgery (BCS or mastectomy) '' @ plus_minus @ '' adjuvant RT.'')"
    by simp
  note inst = C10_stage_group_I_shadows_II_III [of "''Stage III''" "''breast''" ?entries]
  from inst h1 have a: "stageGroupOf ''Stage III'' = ''I''"
    by blast
  from inst h2 have "Some (getTreatmentGuidelines ''breast'' ''Stage III'') = map_of ?entries ''I''"
    and "Some (getTreatmentGuidelines ''breast'' ''Stage II'') = map_of ?entries ''I''"
    by blast+
  then have b: "getTreatmentGuidelines ''breast'' ''Stage III'' =
      ''Surgery (BCS or mastectomy) '' @ plus_minus @ '' adjuvant RT.''"
    and c: "getTreatmentGuidelines ''breast'' ''Stage II'' =
      ''Surgery (BCS or mastectomy) '' @ plus_minus @ '' adjuvant RT.''"
    unfolding i by simp_all
  show ?thesis using h1 h2 a b c by (intro conjI) simp_all
qed

section \<open>Document processing: helper lemmas\<close>

















section \<open>Document processing: upload kinds and errors\<close>



section \<open>Document processing: PDF text layer before OCR\<close>



section \<open>The progress indicator\<close>

lemma stepTrace_cases:
  "stepTrace p x file prev = [current_step prev, 2, 2] \<or>
   stepTrace p x file prev = [current_step prev, 2, 2, 3, 3] \<or>
   stepTrace p x file prev = [current_step prev, 2, 2, 3, 4, 5, 5]"
  by (simp add: stepTrace_def handleFileSelect_def Let_def split: sum.splits)

lemma example_processDocument_png:
  "exampleProcessDoc pngFile =
     Inr \<lparr>ocr_text = ''Breast mass 3 cm'', confidence = 0.87, ocr_method = ''tesseract_ocr'',
          processing_time = 2.5, page_count = 1, file_info = (''scan.png'', 4, ''image/png'')\<rparr>"
  by (simp add: exampleProcessDoc_def processDocument_def processImage_def processImageBlob_def
      initializeTesseract_def exampleLibs_def pngFile_def trim_def isWhiteSpace_def Let_def)

lemma example_first_run:
  "current_step (last (handleFileSelect exampleProcessDoc exampleExtract pngFile initialAppState)) = 5"
  by (simp add: handleFileSelect_def example_processDocument_png exampleExtract_def Let_def)

text \<open>
  Claim C7 (amended). The pipeline has five steps with the ids 1 to 5. A processing run
  started in a state with \<open>current_step = 1\<close> (the initial state) only advances
  \<open>current_step\<close> linearly, 1 to 2 to 3 to 4 to 5: it never decreases and never exceeds 5,
  and a run without error goes through all five. Every run first sets \<open>current_step\<close> to
  2 and advances linearly from there, never above 5.
\<close>

theorem C7_current_step_advances:
  "map step_id steps = [1, 2, 3, 4, 5] \<and>
   (current_step prev = 1 \<longrightarrow>
      advancesLinearly (stepTrace p x file prev) \<and>
      sorted (stepTrace p x file prev) \<and>
      (\<forall>n \<in> set (stepTrace p x file prev). 1 \<le> n \<and> n \<le> 5)) \<and>
   (current_step prev = 1 \<longrightarrow> p file = Inr r \<longrightarrow> x (ocr_text r) = Inr fs \<longrightarrow>
      stepTrace p x file prev = [1, 2, 2, 3, 4, 5, 5]) \<and>
   advancesLinearly (tl (stepTrace p x file prev)) \<and>
   hd (tl (stepTrace p x file prev)) = 2 \<and>
   (\<forall>n \<in> set (tl (stepTrace p x file prev)). n \<le> 5)"
proof -
  have ids: "map step_id steps = [1, 2, 3, 4, 5]"
    by (simp add: steps_def)
  have ok: "p file = Inr r \<Longrightarrow> x (ocr_text r) = Inr fs \<Longrightarrow>
      stepTrace p x file prev = [current_step prev, 2, 2, 3, 4, 5, 5]"
    by (simp add: stepTrace_def handleFileSelect_def Let_def)
  from stepTrace_cases [of p x "file" prev] ids ok show ?thesis
    by (elim disjE) auto
qed

theorem C7_current_step_advances_witness:
  "current_step initialAppState = 1 \<and>
   stepTrace exampleProcessDoc exampleExtract pngFile initialAppState = [1, 2, 2, 3, 4, 5, 5] \<and>
   advancesLinearly (stepTrace exampleProcessDoc exampleExtract pngFile initialAppState)"
proof -
  have h: "current_step initialAppState = 1"
    by (simp add: initialAppState_def)
  have d: "exampleProcessDoc pngFile =
     Inr \<lparr>ocr_text = ''Breast mass 3 cm'', confidence = 0.87, ocr_method = ''tesseract_ocr'',
          processing_time = 2.5, page_count = 1, file_info = (''scan.png'', 4, ''image/png'')\<rparr>"
    by (rule example_processDocument_png)
  have e: "exampleExtract (ocr_text \<lparr>ocr_text = ''Breast mass 3 cm'', confidence = 0.87,
          ocr_method = ''tesseract_ocr'', processing_time = 2.5, page_count = 1,
          file_info = (''scan.png'', 4, ''image/png'')\<rparr>) =
        Inr ((exampleFeatures 3 0 False False [])\<lparr>cancer_type := ''breast''\<rparr>)"
    by (simp add: exampleExtract_def)
  note inst = C7_current_step_advances [of initialAppState exampleProcessDoc exampleExtract pngFile _
      "(exampleFeatures 3 0 False False [])\<lparr>cancer_type := ''breast''\<rparr>"]
  from inst h d e
  have a: "stepTrace exampleProcessDoc exampleExtract pngFile initialAppState = [1, 2, 2, 3, 4, 5, 5]"
    by blast
  from inst h
  have b: "advancesLinearly (stepTrace exampleProcessDoc exampleExtract pngFile initialAppState)"
    by blast
  show ?thesis using h a b by (intro conjI)
qed

text \<open>
  Claim C7 as stated fails for a run that follows an earlier one: the state is not reset,
  so after a complete run \<open>current_step\<close> is 5 and the next run lowers it to 2.
\<close>

theorem C7_second_run_counterexample:
  "current_step (last (handleFileSelect exampleProcessDoc exampleExtract pngFile initialAppState)) = 5 \<and>
   stepTrace exampleProcessDoc exampleExtract pngFile
     (last (handleFileSelect exampleProcessDoc exampleExtract pngFile initialAppState)) =
     [5, 2, 2, 3, 4, 5, 5] \<and>
   \<not> advancesLinearly [5, 2, 2, 3, 4, 5, 5] \<and>
   \<not> sorted [5 :: nat, 2, 2, 3, 4, 5, 5]"
  by (simp add: stepTrace_def example_first_run)
    (simp add: handleFileSelect_def example_processDocument_png exampleExtract_def Let_def)

section \<open>Feature extraction: helper lemmas\<close>


















section \<open>Feature extraction: features by pattern matching\<close>



section \<open>Feature extraction and staging: determinism\<close>



end
